theory Spec2Isabelle
  imports Main "HOL-Library.Sublist"
begin

section \<open>The homework bot: data model\<close>

text \<open>
  The program polls a review API, turns the first homework record of the answer into a
  sentence and sends it to a Telegram chat. Python strings are modelled as \<open>string\<close>
  holding the UTF-8 bytes of the text: concatenation, equality, emptiness and containment
  of texts are the same on code points and on their UTF-8 bytes, and these are the only
  string operations of the program.
\<close>

subsection \<open>Decoded JSON values\<close>

text \<open>
  What \<open>response.json()\<close> can return. A float is named by its \<open>repr()\<close> text (which
  determines the float), a dict is the list of its items in insertion order (keys distinct).
\<close>

datatype json =
    JNull
  | JBool bool
  | JInt int
  | JFloat string
  | JStr string
  | JList "json list"
  | JDict "(string \<times> json) list"

text \<open>\<open>type(x).__name__\<close> and the text of \<open>type(x)\<close> in an f-string.\<close>

fun type_name :: "json \<Rightarrow> string" where
  "type_name JNull = ''NoneType''"
| "type_name (JBool b) = ''bool''"
| "type_name (JInt i) = ''int''"
| "type_name (JFloat r) = ''float''"
| "type_name (JStr s) = ''str''"
| "type_name (JList xs) = ''list''"
| "type_name (JDict kvs) = ''dict''"

definition quoted :: "string \<Rightarrow> string" where
  "quoted s = [CHR 0x27] @ s @ [CHR 0x27]"

definition type_str :: "json \<Rightarrow> string" where
  "type_str x = ''<class '' @ quoted (type_name x) @ ''>''"

text \<open>Truth value of an object, as \<open>not x\<close> tests it.\<close>

fun truthy :: "json \<Rightarrow> bool" where
  "truthy JNull = False"
| "truthy (JBool b) = b"
| "truthy (JInt i) = (i \<noteq> 0)"
| "truthy (JFloat r) = (r \<noteq> ''0.0'' \<and> r \<noteq> ''-0.0'')"
| "truthy (JStr s) = (s \<noteq> [])"
| "truthy (JList xs) = (xs \<noteq> [])"
| "truthy (JDict kvs) = (kvs \<noteq> [])"

text \<open>\<open>isinstance(x, int)\<close>: \<open>bool\<close> is a subclass of \<open>int\<close>.\<close>

fun isinstance_int :: "json \<Rightarrow> bool" where
  "isinstance_int (JInt i) = True"
| "isinstance_int (JBool b) = True"
| "isinstance_int x = False"

fun isinstance_dict :: "json \<Rightarrow> bool" where
  "isinstance_dict (JDict kvs) = True"
| "isinstance_dict x = False"

subsection \<open>Texts of values: \<open>str()\<close> and \<open>repr()\<close>\<close>

definition digit :: "nat \<Rightarrow> char" where
  "digit d = ''0123456789'' ! d"

fun str_nat :: "nat \<Rightarrow> string" where
  "str_nat n = (if n < 10 then [digit n] else str_nat (n div 10) @ [digit (n mod 10)])"

definition str_int :: "int \<Rightarrow> string" where
  "str_int i = (if i < 0 then ''-'' @ str_nat (nat (- i)) else str_nat (nat i))"

text \<open>
  The interpreter. \<open>repr()\<close> of a string puts it in quotes and escapes the quote, the
  backslash and every code point that the interpreter's Unicode tables call
  non-printable. Which code points these are depends on the interpreter, so the function
  is taken from it as it is: every function below that prints the \<open>repr\<close> of a string
  has the interpreter as its first argument.
\<close>

record python =
  repr_str :: "string \<Rightarrow> string"

fun join :: "string \<Rightarrow> string list \<Rightarrow> string" where
  "join sep [] = []"
| "join sep [x] = x"
| "join sep (x # y # ys) = x @ sep @ join sep (y # ys)"

text \<open>\<open>repr(x)\<close> of a decoded JSON value.\<close>

fun repr :: "python \<Rightarrow> json \<Rightarrow> string" where
  "repr py JNull = ''None''"
| "repr py (JBool b) = (if b then ''True'' else ''False'')"
| "repr py (JInt i) = str_int i"
| "repr py (JFloat r) = r"
| "repr py (JStr s) = repr_str py s"
| "repr py (JList xs) = ''['' @ join '', '' (map (repr py) xs) @ '']''"
| "repr py (JDict kvs) =
     ''{'' @
     join '', '' (map (\<lambda>kv. repr_str py (fst kv) @ '': '' @ repr py (snd kv)) kvs) @
     ''}''"

text \<open>\<open>str(x)\<close>, which an f-string applies to a substituted value.\<close>

fun str :: "python \<Rightarrow> json \<Rightarrow> string" where
  "str py (JStr s) = s"
| "str py x = repr py x"

subsection \<open>Exceptions\<close>

text \<open>
  Modelled from the spec: the classes \<open>BotError\<close> and \<open>DateError\<close> of the
  repository's module \<open>exceptions\<close>, which is not among the sources; the two are taken
  as distinct error kinds of their own (plain subclasses of \<open>Exception\<close>, related to no
  other class), as the spec's error taxonomy names them. The other classes are those the
  program raises or tells apart: \<open>RequestException\<close> and \<open>TelegramError\<close> stand
  for these library classes and their subclasses, \<open>OtherError name\<close> is any other
  subclass of \<open>Exception\<close>.
\<close>

datatype exc_class =
    ConnectionError
  | TypeError
  | KeyError
  | AttributeError
  | BotError
  | DateError
  | TelegramError
  | RequestException
  | OtherError string

text \<open>An exception: its class, its argument and the exception it was raised \<open>from\<close>.\<close>

datatype exn = Exn (cls: exc_class) (arg: string) (cause: "exn option")

text \<open>\<open>str(error)\<close>: the argument; \<open>KeyError\<close> prints the \<open>repr\<close> of its argument.\<close>

definition exc_str :: "python \<Rightarrow> exn \<Rightarrow> string" where
  "exc_str py error = (if cls error = KeyError then repr_str py (arg error) else arg error)"

subsection \<open>Constants of the module\<close>

definition RETRY_TIME :: nat where
  "RETRY_TIME = 600"

definition ENDPOINT :: string where
  "ENDPOINT = ''https://practicum.yandex.ru/api/user_api/homework_statuses/''"

definition verdict_approved :: string where
  \<comment> \<open>UTF-8 bytes of the Russian text "Work checked: the reviewer liked everything. Hooray!"\<close>
  "verdict_approved =
     [CHR 0xD0, CHR 0xA0, CHR 0xD0, CHR 0xB0, CHR 0xD0, CHR 0xB1, CHR 0xD0, CHR 0xBE,
     CHR 0xD1, CHR 0x82, CHR 0xD0, CHR 0xB0, CHR 0x20, CHR 0xD0, CHR 0xBF, CHR 0xD1,
     CHR 0x80, CHR 0xD0, CHR 0xBE, CHR 0xD0, CHR 0xB2, CHR 0xD0, CHR 0xB5, CHR 0xD1,
     CHR 0x80, CHR 0xD0, CHR 0xB5, CHR 0xD0, CHR 0xBD, CHR 0xD0, CHR 0xB0] @ '':'' @
     [CHR 0x20, CHR 0xD1, CHR 0x80, CHR 0xD0, CHR 0xB5, CHR 0xD0, CHR 0xB2, CHR 0xD1,
     CHR 0x8C, CHR 0xD1, CHR 0x8E, CHR 0xD0, CHR 0xB5, CHR 0xD1, CHR 0x80, CHR 0xD1,
     CHR 0x83, CHR 0x20, CHR 0xD0, CHR 0xB2, CHR 0xD1, CHR 0x81, CHR 0xD1, CHR 0x91,
     CHR 0x20, CHR 0xD0, CHR 0xBF, CHR 0xD0, CHR 0xBE, CHR 0xD0, CHR 0xBD, CHR 0xD1,
     CHR 0x80, CHR 0xD0, CHR 0xB0, CHR 0xD0, CHR 0xB2, CHR 0xD0, CHR 0xB8, CHR 0xD0,
     CHR 0xBB, CHR 0xD0, CHR 0xBE, CHR 0xD1, CHR 0x81, CHR 0xD1, CHR 0x8C] @ ''.'' @
     [CHR 0x20, CHR 0xD0, CHR 0xA3, CHR 0xD1, CHR 0x80, CHR 0xD0, CHR 0xB0] @ ''!''"

definition verdict_reviewing :: string where
  \<comment> \<open>UTF-8 bytes of the Russian text "Work taken for review by the reviewer."\<close>
  "verdict_reviewing =
     [CHR 0xD0, CHR 0xA0, CHR 0xD0, CHR 0xB0, CHR 0xD0, CHR 0xB1, CHR 0xD0, CHR 0xBE,
     CHR 0xD1, CHR 0x82, CHR 0xD0, CHR 0xB0, CHR 0x20, CHR 0xD0, CHR 0xB2, CHR 0xD0,
     CHR 0xB7, CHR 0xD1, CHR 0x8F, CHR 0xD1, CHR 0x82, CHR 0xD0, CHR 0xB0, CHR 0x20,
     CHR 0xD0, CHR 0xBD, CHR 0xD0, CHR 0xB0, CHR 0x20, CHR 0xD0, CHR 0xBF, CHR 0xD1,
     CHR 0x80, CHR 0xD0, CHR 0xBE, CHR 0xD0, CHR 0xB2, CHR 0xD0, CHR 0xB5, CHR 0xD1,
     CHR 0x80, CHR 0xD0, CHR 0xBA, CHR 0xD1, CHR 0x83, CHR 0x20, CHR 0xD1, CHR 0x80,
     CHR 0xD0, CHR 0xB5, CHR 0xD0, CHR 0xB2, CHR 0xD1, CHR 0x8C, CHR 0xD1, CHR 0x8E,
     CHR 0xD0, CHR 0xB5, CHR 0xD1, CHR 0x80, CHR 0xD0, CHR 0xBE, CHR 0xD0, CHR 0xBC] @ ''.''"

definition verdict_rejected :: string where
  \<comment> \<open>UTF-8 bytes of the Russian text "Work checked: the reviewer has remarks."\<close>
  "verdict_rejected =
     [CHR 0xD0, CHR 0xA0, CHR 0xD0, CHR 0xB0, CHR 0xD0, CHR 0xB1, CHR 0xD0, CHR 0xBE,
     CHR 0xD1, CHR 0x82, CHR 0xD0, CHR 0xB0, CHR 0x20, CHR 0xD0, CHR 0xBF, CHR 0xD1,
     CHR 0x80, CHR 0xD0, CHR 0xBE, CHR 0xD0, CHR 0xB2, CHR 0xD0, CHR 0xB5, CHR 0xD1,
     CHR 0x80, CHR 0xD0, CHR 0xB5, CHR 0xD0, CHR 0xBD, CHR 0xD0, CHR 0xB0] @ '':'' @
     [CHR 0x20, CHR 0xD1, CHR 0x83, CHR 0x20, CHR 0xD1, CHR 0x80, CHR 0xD0, CHR 0xB5,
     CHR 0xD0, CHR 0xB2, CHR 0xD1, CHR 0x8C, CHR 0xD1, CHR 0x8E, CHR 0xD0, CHR 0xB5,
     CHR 0xD1, CHR 0x80, CHR 0xD0, CHR 0xB0, CHR 0x20, CHR 0xD0, CHR 0xB5, CHR 0xD1,
     CHR 0x81, CHR 0xD1, CHR 0x82, CHR 0xD1, CHR 0x8C, CHR 0x20, CHR 0xD0, CHR 0xB7,
     CHR 0xD0, CHR 0xB0, CHR 0xD0, CHR 0xBC, CHR 0xD0, CHR 0xB5, CHR 0xD1, CHR 0x87,
     CHR 0xD0, CHR 0xB0, CHR 0xD0, CHR 0xBD, CHR 0xD0, CHR 0xB8, CHR 0xD1, CHR 0x8F] @ ''.''"

definition txt_send_error :: string where
  \<comment> \<open>UTF-8 bytes of the Russian text "Error while sending message ["\<close>
  "txt_send_error =
     [CHR 0xD0, CHR 0x9E, CHR 0xD1, CHR 0x88, CHR 0xD0, CHR 0xB8, CHR 0xD0, CHR 0xB1,
     CHR 0xD0, CHR 0xBA, CHR 0xD0, CHR 0xB0, CHR 0x20, CHR 0xD0, CHR 0xBF, CHR 0xD1,
     CHR 0x80, CHR 0xD0, CHR 0xB8, CHR 0x20, CHR 0xD0, CHR 0xBE, CHR 0xD1, CHR 0x82,
     CHR 0xD0, CHR 0xBF, CHR 0xD1, CHR 0x80, CHR 0xD0, CHR 0xB0, CHR 0xD0, CHR 0xB2,
     CHR 0xD0, CHR 0xBA, CHR 0xD0, CHR 0xB5, CHR 0x20, CHR 0xD1, CHR 0x81, CHR 0xD0,
     CHR 0xBE, CHR 0xD0, CHR 0xBE, CHR 0xD0, CHR 0xB1, CHR 0xD1, CHR 0x89, CHR 0xD0,
     CHR 0xB5, CHR 0xD0, CHR 0xBD, CHR 0xD0, CHR 0xB8, CHR 0xD1, CHR 0x8F, CHR 0x20] @ ''[''"

definition txt_message :: string where
  \<comment> \<open>UTF-8 bytes of the Russian text "Message ["\<close>
  "txt_message =
     [CHR 0xD0, CHR 0xA1, CHR 0xD0, CHR 0xBE, CHR 0xD0, CHR 0xBE, CHR 0xD0, CHR 0xB1,
     CHR 0xD1, CHR 0x89, CHR 0xD0, CHR 0xB5, CHR 0xD0, CHR 0xBD, CHR 0xD0, CHR 0xB8,
     CHR 0xD0, CHR 0xB5, CHR 0x20] @ ''[''"

definition txt_sent :: string where
  \<comment> \<open>UTF-8 bytes of the Russian text "] sent"\<close>
  "txt_sent =
     '']'' @ [CHR 0x20, CHR 0xD0, CHR 0xBE, CHR 0xD1, CHR 0x82, CHR 0xD0, CHR 0xBF,
     CHR 0xD1, CHR 0x80, CHR 0xD0, CHR 0xB0, CHR 0xD0, CHR 0xB2, CHR 0xD0, CHR 0xBB,
     CHR 0xD0, CHR 0xB5, CHR 0xD0, CHR 0xBD, CHR 0xD0, CHR 0xBE]"

definition txt_no_access :: string where
  \<comment> \<open>UTF-8 bytes of the Russian text "No access to endpoint"\<close>
  "txt_no_access =
     [CHR 0xD0, CHR 0x9E, CHR 0xD1, CHR 0x82, CHR 0xD1, CHR 0x81, CHR 0xD1, CHR 0x83,
     CHR 0xD1, CHR 0x82, CHR 0xD1, CHR 0x81, CHR 0xD1, CHR 0x82, CHR 0xD0, CHR 0xB2,
     CHR 0xD1, CHR 0x83, CHR 0xD0, CHR 0xB5, CHR 0xD1, CHR 0x82, CHR 0x20, CHR 0xD0,
     CHR 0xB4, CHR 0xD0, CHR 0xBE, CHR 0xD1, CHR 0x81, CHR 0xD1, CHR 0x82, CHR 0xD1,
     CHR 0x83, CHR 0xD0, CHR 0xBF, CHR 0x20, CHR 0xD0, CHR 0xBA, CHR 0x20, CHR 0xD1,
     CHR 0x8D, CHR 0xD0, CHR 0xBD, CHR 0xD0, CHR 0xB4, CHR 0xD0, CHR 0xBF, CHR 0xD0,
     CHR 0xBE, CHR 0xD0, CHR 0xB8, CHR 0xD0, CHR 0xBD, CHR 0xD1, CHR 0x82, CHR 0xD1,
     CHR 0x83, CHR 0x20]"

definition txt_error :: string where
  \<comment> \<open>UTF-8 bytes of the Russian text "Error:"\<close>
  "txt_error =
     [CHR 0xD0, CHR 0x9E, CHR 0xD1, CHR 0x88, CHR 0xD0, CHR 0xB8, CHR 0xD0, CHR 0xB1,
     CHR 0xD0, CHR 0xBA, CHR 0xD0, CHR 0xB0] @ '':'' @ [CHR 0x20]"

definition txt_endpoint_status :: string where
  \<comment> \<open>UTF-8 bytes of the Russian text "Status of endpoint"\<close>
  "txt_endpoint_status =
     [CHR 0xD0, CHR 0xA1, CHR 0xD1, CHR 0x82, CHR 0xD0, CHR 0xB0, CHR 0xD1, CHR 0x82,
     CHR 0xD1, CHR 0x83, CHR 0xD1, CHR 0x81, CHR 0x20, CHR 0xD1, CHR 0x8D, CHR 0xD0,
     CHR 0xBD, CHR 0xD0, CHR 0xB4, CHR 0xD0, CHR 0xBF, CHR 0xD0, CHR 0xBE, CHR 0xD0,
     CHR 0xB8, CHR 0xD0, CHR 0xBD, CHR 0xD1, CHR 0x82, CHR 0xD0, CHR 0xB0, CHR 0x20]"

definition txt_not_200 :: string where
  \<comment> \<open>UTF-8 bytes of the Russian text "differs from 200"\<close>
  "txt_not_200 =
     [CHR 0x20, CHR 0xD0, CHR 0xBE, CHR 0xD1, CHR 0x82, CHR 0xD0, CHR 0xBB, CHR 0xD0,
     CHR 0xB8, CHR 0xD1, CHR 0x87, CHR 0xD0, CHR 0xB5, CHR 0xD0, CHR 0xBD, CHR 0x20,
     CHR 0xD0, CHR 0xBE, CHR 0xD1, CHR 0x82, CHR 0x20] @ ''200''"

definition txt_status :: string where
  \<comment> \<open>UTF-8 bytes of the Russian text "Status"\<close>
  "txt_status =
     [CHR 0xD0, CHR 0xA1, CHR 0xD1, CHR 0x82, CHR 0xD0, CHR 0xB0, CHR 0xD1, CHR 0x82,
     CHR 0xD1, CHR 0x83, CHR 0xD1, CHR 0x81, CHR 0x20]"

definition txt_response_type :: string where
  \<comment> \<open>UTF-8 bytes of the Russian text "Error in the type of the received data"\<close>
  "txt_response_type =
     [CHR 0xD0, CHR 0x9E, CHR 0xD1, CHR 0x88, CHR 0xD0, CHR 0xB8, CHR 0xD0, CHR 0xB1,
     CHR 0xD0, CHR 0xBA, CHR 0xD0, CHR 0xB0, CHR 0x20, CHR 0xD0, CHR 0xB2, CHR 0x20,
     CHR 0xD1, CHR 0x82, CHR 0xD0, CHR 0xB8, CHR 0xD0, CHR 0xBF, CHR 0xD0, CHR 0xB5,
     CHR 0x20, CHR 0xD0, CHR 0xBF, CHR 0xD0, CHR 0xBE, CHR 0xD0, CHR 0xBB, CHR 0xD1,
     CHR 0x83, CHR 0xD1, CHR 0x87, CHR 0xD0, CHR 0xB5, CHR 0xD0, CHR 0xBD, CHR 0xD0,
     CHR 0xBD, CHR 0xD1, CHR 0x8B, CHR 0xD1, CHR 0x85, CHR 0x20, CHR 0xD0, CHR 0xB4,
     CHR 0xD0, CHR 0xB0, CHR 0xD0, CHR 0xBD, CHR 0xD0, CHR 0xBD, CHR 0xD1, CHR 0x8B,
     CHR 0xD1, CHR 0x85, CHR 0x20]"

definition txt_data_type :: string where
  \<comment> \<open>UTF-8 bytes of the Russian text "Data type:"\<close>
  "txt_data_type =
     [CHR 0xD0, CHR 0xA2, CHR 0xD0, CHR 0xB8, CHR 0xD0, CHR 0xBF, CHR 0x20, CHR 0xD0,
     CHR 0xB4, CHR 0xD0, CHR 0xB0, CHR 0xD0, CHR 0xBD, CHR 0xD0, CHR 0xBD, CHR 0xD1,
     CHR 0x8B, CHR 0xD1, CHR 0x85] @ '':'' @ [CHR 0x20]"

definition txt_no_current_date :: string where
  \<comment> \<open>UTF-8 bytes of the Russian text "Key current_date is not in the received data"\<close>
  "txt_no_current_date =
     [CHR 0xD0, CHR 0x9A, CHR 0xD0, CHR 0xBB, CHR 0xD1, CHR 0x8E, CHR 0xD1, CHR 0x87,
     CHR 0xD0, CHR 0xB0, CHR 0x20] @ ''current_date'' @ [CHR 0x20, CHR 0xD0, CHR 0xBD,
     CHR 0xD0, CHR 0xB5, CHR 0xD1, CHR 0x82, CHR 0x20, CHR 0xD0, CHR 0xB2, CHR 0x20,
     CHR 0xD0, CHR 0xBF, CHR 0xD0, CHR 0xBE, CHR 0xD0, CHR 0xBB, CHR 0xD1, CHR 0x83,
     CHR 0xD1, CHR 0x87, CHR 0xD0, CHR 0xB5, CHR 0xD0, CHR 0xBD, CHR 0xD0, CHR 0xBD,
     CHR 0xD1, CHR 0x8B, CHR 0xD1, CHR 0x85, CHR 0x20, CHR 0xD0, CHR 0xB4, CHR 0xD0,
     CHR 0xB0, CHR 0xD0, CHR 0xBD, CHR 0xD0, CHR 0xBD, CHR 0xD1, CHR 0x8B, CHR 0xD1,
     CHR 0x85]"

definition txt_no_homeworks :: string where
  \<comment> \<open>UTF-8 bytes of the Russian text "Key homeworks is not in the received data"\<close>
  "txt_no_homeworks =
     [CHR 0xD0, CHR 0x9A, CHR 0xD0, CHR 0xBB, CHR 0xD1, CHR 0x8E, CHR 0xD1, CHR 0x87,
     CHR 0xD0, CHR 0xB0, CHR 0x20] @ ''homeworks'' @ [CHR 0x20, CHR 0xD0, CHR 0xBD,
     CHR 0xD0, CHR 0xB5, CHR 0xD1, CHR 0x82, CHR 0x20, CHR 0xD0, CHR 0xB2, CHR 0x20,
     CHR 0xD0, CHR 0xBF, CHR 0xD0, CHR 0xBE, CHR 0xD0, CHR 0xBB, CHR 0xD1, CHR 0x83,
     CHR 0xD1, CHR 0x87, CHR 0xD0, CHR 0xB5, CHR 0xD0, CHR 0xBD, CHR 0xD0, CHR 0xBD,
     CHR 0xD1, CHR 0x8B, CHR 0xD1, CHR 0x85, CHR 0x20, CHR 0xD0, CHR 0xB4, CHR 0xD0,
     CHR 0xB0, CHR 0xD0, CHR 0xBD, CHR 0xD0, CHR 0xBD, CHR 0xD1, CHR 0x8B, CHR 0xD1,
     CHR 0x85]"

definition txt_homeworks_type :: string where
  \<comment> \<open>UTF-8 bytes of the Russian text "Error in the data type of the homeworks"\<close>
  "txt_homeworks_type =
     [CHR 0xD0, CHR 0x9E, CHR 0xD1, CHR 0x88, CHR 0xD0, CHR 0xB8, CHR 0xD0, CHR 0xB1,
     CHR 0xD0, CHR 0xBA, CHR 0xD0, CHR 0xB0, CHR 0x20, CHR 0xD0, CHR 0xB2, CHR 0x20,
     CHR 0xD1, CHR 0x82, CHR 0xD0, CHR 0xB8, CHR 0xD0, CHR 0xBF, CHR 0xD0, CHR 0xB5,
     CHR 0x20, CHR 0xD0, CHR 0xB4, CHR 0xD0, CHR 0xB0, CHR 0xD0, CHR 0xBD, CHR 0xD0,
     CHR 0xBD, CHR 0xD1, CHR 0x8B, CHR 0xD1, CHR 0x85, CHR 0x20, CHR 0xD0, CHR 0xB4,
     CHR 0xD0, CHR 0xBE, CHR 0xD0, CHR 0xBC, CHR 0xD0, CHR 0xB0, CHR 0xD1, CHR 0x88,
     CHR 0xD0, CHR 0xBD, CHR 0xD0, CHR 0xB8, CHR 0xD1, CHR 0x85, CHR 0x20, CHR 0xD0,
     CHR 0xB7, CHR 0xD0, CHR 0xB0, CHR 0xD0, CHR 0xB4, CHR 0xD0, CHR 0xB0, CHR 0xD0,
     CHR 0xBD, CHR 0xD0, CHR 0xB8, CHR 0xD0, CHR 0xB9, CHR 0x20]"

definition txt_no_homework_name :: string where
  \<comment> \<open>UTF-8 bytes of the Russian text "Key homework_name is missing"\<close>
  "txt_no_homework_name =
     [CHR 0xD0, CHR 0x9E, CHR 0xD1, CHR 0x82, CHR 0xD1, CHR 0x81, CHR 0xD1, CHR 0x83,
     CHR 0xD1, CHR 0x82, CHR 0xD1, CHR 0x81, CHR 0xD1, CHR 0x82, CHR 0xD0, CHR 0xB2,
     CHR 0xD1, CHR 0x83, CHR 0xD0, CHR 0xB5, CHR 0xD1, CHR 0x82, CHR 0x20, CHR 0xD0,
     CHR 0xBA, CHR 0xD0, CHR 0xBB, CHR 0xD1, CHR 0x8E, CHR 0xD1, CHR 0x87, CHR 0x20] @
     ''homework_name''"

definition txt_unexpected_status :: string where
  \<comment> \<open>UTF-8 bytes of the Russian text "Received an unexpected work status:"\<close>
  "txt_unexpected_status =
     [CHR 0xD0, CHR 0x9F, CHR 0xD0, CHR 0xBE, CHR 0xD0, CHR 0xBB, CHR 0xD1, CHR 0x83,
     CHR 0xD1, CHR 0x87, CHR 0xD0, CHR 0xB5, CHR 0xD0, CHR 0xBD, CHR 0x20, CHR 0xD0,
     CHR 0xBD, CHR 0xD0, CHR 0xB5, CHR 0xD0, CHR 0xBE, CHR 0xD0, CHR 0xB6, CHR 0xD0,
     CHR 0xB8, CHR 0xD0, CHR 0xB4, CHR 0xD0, CHR 0xB0, CHR 0xD0, CHR 0xBD, CHR 0xD0,
     CHR 0xBD, CHR 0xD1, CHR 0x8B, CHR 0xD0, CHR 0xB9, CHR 0x20, CHR 0xD1, CHR 0x81,
     CHR 0xD1, CHR 0x82, CHR 0xD0, CHR 0xB0, CHR 0xD1, CHR 0x82, CHR 0xD1, CHR 0x83,
     CHR 0xD1, CHR 0x81, CHR 0x20, CHR 0xD1, CHR 0x80, CHR 0xD0, CHR 0xB0, CHR 0xD0,
     CHR 0xB1, CHR 0xD0, CHR 0xBE, CHR 0xD1, CHR 0x82, CHR 0xD1, CHR 0x8B] @ '':'' @
     [CHR 0x20]"

definition txt_status_changed :: string where
  \<comment> \<open>UTF-8 bytes of the Russian text "Review status of the work has changed '"\<close>
  "txt_status_changed =
     [CHR 0xD0, CHR 0x98, CHR 0xD0, CHR 0xB7, CHR 0xD0, CHR 0xBC, CHR 0xD0, CHR 0xB5,
     CHR 0xD0, CHR 0xBD, CHR 0xD0, CHR 0xB8, CHR 0xD0, CHR 0xBB, CHR 0xD1, CHR 0x81,
     CHR 0xD1, CHR 0x8F, CHR 0x20, CHR 0xD1, CHR 0x81, CHR 0xD1, CHR 0x82, CHR 0xD0,
     CHR 0xB0, CHR 0xD1, CHR 0x82, CHR 0xD1, CHR 0x83, CHR 0xD1, CHR 0x81, CHR 0x20,
     CHR 0xD0, CHR 0xBF, CHR 0xD1, CHR 0x80, CHR 0xD0, CHR 0xBE, CHR 0xD0, CHR 0xB2,
     CHR 0xD0, CHR 0xB5, CHR 0xD1, CHR 0x80, CHR 0xD0, CHR 0xBA, CHR 0xD0, CHR 0xB8,
     CHR 0x20, CHR 0xD1, CHR 0x80, CHR 0xD0, CHR 0xB0, CHR 0xD0, CHR 0xB1, CHR 0xD0,
     CHR 0xBE, CHR 0xD1, CHR 0x82, CHR 0xD1, CHR 0x8B, CHR 0x20, CHR 0x22]"

definition txt_missing_env :: string where
  \<comment> \<open>UTF-8 bytes of the Russian text "Missing environment variable"\<close>
  "txt_missing_env =
     [CHR 0xD0, CHR 0x9E, CHR 0xD1, CHR 0x82, CHR 0xD1, CHR 0x81, CHR 0xD1, CHR 0x83,
     CHR 0xD1, CHR 0x82, CHR 0xD1, CHR 0x81, CHR 0xD1, CHR 0x82, CHR 0xD0, CHR 0xB2,
     CHR 0xD1, CHR 0x83, CHR 0xD0, CHR 0xB5, CHR 0xD1, CHR 0x82, CHR 0x20, CHR 0xD0,
     CHR 0xBF, CHR 0xD0, CHR 0xB5, CHR 0xD1, CHR 0x80, CHR 0xD0, CHR 0xB5, CHR 0xD0,
     CHR 0xBC, CHR 0xD0, CHR 0xB5, CHR 0xD0, CHR 0xBD, CHR 0xD0, CHR 0xBD, CHR 0xD0,
     CHR 0xB0, CHR 0xD1, CHR 0x8F, CHR 0x20, CHR 0xD0, CHR 0xBE, CHR 0xD0, CHR 0xBA,
     CHR 0xD1, CHR 0x80, CHR 0xD1, CHR 0x83, CHR 0xD0, CHR 0xB6, CHR 0xD0, CHR 0xB5,
     CHR 0xD0, CHR 0xBD, CHR 0xD0, CHR 0xB8, CHR 0xD1, CHR 0x8F, CHR 0x20]"

definition txt_failure :: string where
  \<comment> \<open>UTF-8 bytes of the Russian text "Failure in the program:"\<close>
  "txt_failure =
     [CHR 0xD0, CHR 0xA1, CHR 0xD0, CHR 0xB1, CHR 0xD0, CHR 0xBE, CHR 0xD0, CHR 0xB9,
     CHR 0x20, CHR 0xD0, CHR 0xB2, CHR 0x20, CHR 0xD1, CHR 0x80, CHR 0xD0, CHR 0xB0,
     CHR 0xD0, CHR 0xB1, CHR 0xD0, CHR 0xBE, CHR 0xD1, CHR 0x82, CHR 0xD0, CHR 0xB5,
     CHR 0x20, CHR 0xD0, CHR 0xBF, CHR 0xD1, CHR 0x80, CHR 0xD0, CHR 0xBE, CHR 0xD0,
     CHR 0xB3, CHR 0xD1, CHR 0x80, CHR 0xD0, CHR 0xB0, CHR 0xD0, CHR 0xBC, CHR 0xD0,
     CHR 0xBC, CHR 0xD1, CHR 0x8B] @ '':'' @ [CHR 0x20]"

definition txt_interrupted :: string where
  \<comment> \<open>UTF-8 bytes of the Russian text "The bot's work was interrupted"\<close>
  "txt_interrupted =
     [CHR 0xD0, CHR 0xA0, CHR 0xD0, CHR 0xB0, CHR 0xD0, CHR 0xB1, CHR 0xD0, CHR 0xBE,
     CHR 0xD1, CHR 0x82, CHR 0xD0, CHR 0xB0, CHR 0x20, CHR 0xD0, CHR 0xB1, CHR 0xD0,
     CHR 0xBE, CHR 0xD1, CHR 0x82, CHR 0xD0, CHR 0xB0, CHR 0x20, CHR 0xD0, CHR 0xB1,
     CHR 0xD1, CHR 0x8B, CHR 0xD0, CHR 0xBB, CHR 0xD0, CHR 0xB0, CHR 0x20, CHR 0xD0,
     CHR 0xBF, CHR 0xD1, CHR 0x80, CHR 0xD0, CHR 0xB5, CHR 0xD1, CHR 0x80, CHR 0xD0,
     CHR 0xB2, CHR 0xD0, CHR 0xB0, CHR 0xD0, CHR 0xBD, CHR 0xD0, CHR 0xB0]"

definition HOMEWORK_STATUSES :: "(string \<times> string) list" where
  "HOMEWORK_STATUSES =
     [(''approved'', verdict_approved),
      (''reviewing'', verdict_reviewing),
      (''rejected'', verdict_rejected)]"

subsection \<open>Dictionary operations\<close>

text \<open>\<open>key in d\<close> and \<open>d.get(key)\<close> for a dict with string keys and a string \<open>key\<close>.\<close>

definition has_key :: "(string \<times> 'a) list \<Rightarrow> string \<Rightarrow> bool" where
  "has_key d key = (map_of d key \<noteq> None)"

definition dict_get :: "(string \<times> json) list \<Rightarrow> string \<Rightarrow> json" where
  "dict_get d key = (case map_of d key of None \<Rightarrow> JNull | Some v \<Rightarrow> v)"

text \<open>\<open>obj.get(key)\<close> on an arbitrary object: an object that is no dict has no \<open>get\<close>.\<close>

fun get :: "json \<Rightarrow> string \<Rightarrow> exn + json" where
  "get (JDict d) key = Inr (dict_get d key)"
| "get x key =
     Inl (Exn AttributeError
            (quoted (type_name x) @ '' object has no attribute '' @ quoted ''get'') None)"

text \<open>
  \<open>x in d\<close> for an arbitrary object \<open>x\<close>: a list or a dict cannot be hashed, and a
  value that is no string equals no string key.
\<close>

fun contains :: "(string \<times> 'a) list \<Rightarrow> json \<Rightarrow> exn + bool" where
  "contains d (JStr s) = Inr (has_key d s)"
| "contains d (JList xs) = Inl (Exn TypeError (''unhashable type: '' @ quoted ''list'') None)"
| "contains d (JDict kvs) = Inl (Exn TypeError (''unhashable type: '' @ quoted ''dict'') None)"
| "contains d x = Inr False"

text \<open>\<open>HOMEWORK_STATUSES.get(x)\<close>, as an f-string prints it.\<close>

fun verdict_of :: "json \<Rightarrow> string" where
  "verdict_of (JStr s) = (case map_of HOMEWORK_STATUSES s of None \<Rightarrow> ''None'' | Some v \<Rightarrow> v)"
| "verdict_of x = ''None''"

section \<open>The environment\<close>

text \<open>
  The three environment variables (\<open>os.getenv\<close> gives \<open>None\<close> for an unset one), and
  the outside world during one poll cycle: what \<open>requests.get\<close> does with a URL, headers
  and parameters, and what the Telegram client does with a chat and a text.
\<close>

record config =
  PRACTICUM_TOKEN :: "string option"
  TELEGRAM_TOKEN :: "string option"
  TELEGRAM_CHAT_ID :: "string option"

record response =
  status_code :: int
  json :: "exn + json"

record world =
  requests_get :: "string \<Rightarrow> (string \<times> string) list \<Rightarrow> (string \<times> json) list \<Rightarrow> exn + response"
  bot_send_message :: "string option \<Rightarrow> string \<Rightarrow> exn option"

datatype level = INFO | ERROR | CRITICAL

text \<open>What the program does to the outside: log lines, calls of the client, sleeps.\<close>

datatype event =
    Log level string
  | BotSend "string option" string
  | Sleep nat

definition str_opt :: "string option \<Rightarrow> string" where
  "str_opt v = (case v of None \<Rightarrow> ''None'' | Some s \<Rightarrow> s)"

definition HEADERS :: "config \<Rightarrow> (string \<times> string) list" where
  "HEADERS cfg = [(''Authorization'', ''OAuth '' @ str_opt (PRACTICUM_TOKEN cfg))]"

section \<open>The functions of the program\<close>

subsection \<open>\<open>send_message\<close>\<close>

definition send_message :: "config \<Rightarrow> world \<Rightarrow> string \<Rightarrow> (exn + unit) \<times> event list" where
  "send_message cfg w message =
     (case bot_send_message w (TELEGRAM_CHAT_ID cfg) message of
        Some error \<Rightarrow>
          if cls error = TelegramError then
            (Inl (Exn BotError (txt_send_error @ message @ '']'') (Some error)),
             [BotSend (TELEGRAM_CHAT_ID cfg) message])
          else (Inl error, [BotSend (TELEGRAM_CHAT_ID cfg) message])
      | None \<Rightarrow>
          (Inr (),
           [BotSend (TELEGRAM_CHAT_ID cfg) message,
            Log INFO (txt_message @ message @ txt_sent)]))"

subsection \<open>\<open>get_api_answer\<close>\<close>

definition get_api_answer :: "python \<Rightarrow> config \<Rightarrow> world \<Rightarrow> json \<Rightarrow> exn + json" where
  "get_api_answer py cfg w current_timestamp =
     (let params = [(''from_date'', current_timestamp)] in
      case requests_get w ENDPOINT (HEADERS cfg) params of
        Inl error \<Rightarrow>
          if cls error = RequestException then
            Inl (Exn ConnectionError
                   (txt_no_access @ ENDPOINT @ '' '' @ txt_error @ exc_str py error) (Some error))
          else Inl error
      | Inr response \<Rightarrow>
          if status_code response \<noteq> 200 then
            Inl (Exn ConnectionError
                   (txt_endpoint_status @ ENDPOINT @ txt_not_200 @
                    txt_status @ str_int (status_code response)) None)
          else json response)"

subsection \<open>\<open>check_response\<close>\<close>

definition check_response :: "json \<Rightarrow> exn + json list" where
  "check_response response =
     (case response of
        JDict d \<Rightarrow>
          (let homeworks = dict_get d ''homeworks'' in
           if \<not> has_key d ''current_date'' then
             Inl (Exn DateError txt_no_current_date None)
           else if \<not> has_key d ''homeworks'' then
             Inl (Exn KeyError txt_no_homeworks None)
           else
             (case homeworks of
                JList hs \<Rightarrow> Inr hs
              | _ \<Rightarrow>
                Inl (Exn TypeError
                       (txt_homeworks_type @ txt_data_type @ type_str homeworks) None)))
      | _ \<Rightarrow>
          Inl (Exn TypeError (txt_response_type @ txt_data_type @ type_str response) None))"

subsection \<open>\<open>parse_status\<close>\<close>

definition parse_status :: "python \<Rightarrow> json \<Rightarrow> exn + string" where
  "parse_status py homework =
     (case get homework ''homework_name'' of
        Inl error \<Rightarrow> Inl error
      | Inr homework_name \<Rightarrow>
     (case get homework ''status'' of
        Inl error \<Rightarrow> Inl error
      | Inr homework_status \<Rightarrow>
          if \<not> truthy homework_name then
            Inl (Exn KeyError txt_no_homework_name None)
          else
            (case contains HOMEWORK_STATUSES homework_status of
               Inl error \<Rightarrow> Inl error
             | Inr known \<Rightarrow>
                 if \<not> known then
                   Inl (Exn KeyError (txt_unexpected_status @ str py homework_status) None)
                 else
                   (let verdict = verdict_of homework_status in
                    Inr (txt_status_changed @ str py homework_name @ [CHR 0x22] @ ''. '' @
                         verdict)))))"

subsection \<open>\<open>check_tokens\<close>\<close>

text \<open>\<open>not value\<close> for an environment variable: unset or empty.\<close>

definition falsy :: "string option \<Rightarrow> bool" where
  "falsy v = (v = None \<or> v = Some [])"

fun first_missing :: "(string \<times> string option) list \<Rightarrow> bool \<times> event list" where
  "first_missing [] = (True, [])"
| "first_missing ((key, v) # env_vars) =
     (if falsy v then (False, [Log CRITICAL (txt_missing_env @ key)])
      else first_missing env_vars)"

definition check_tokens :: "config \<Rightarrow> bool \<times> event list" where
  "check_tokens cfg =
     (let env_vars =
        [(''PRACTICUM_TOKEN'', PRACTICUM_TOKEN cfg),
         (''TELEGRAM_TOKEN'', TELEGRAM_TOKEN cfg),
         (''TELEGRAM_CHAT_ID'', TELEGRAM_CHAT_ID cfg)]
      in first_missing env_vars)"

subsection \<open>\<open>main\<close>\<close>

text \<open>The body of the \<open>try\<close> block: the new \<open>current_timestamp\<close> or the exception raised.\<close>

definition poll ::
  "python \<Rightarrow> config \<Rightarrow> world \<Rightarrow> json \<Rightarrow> (exn + json) \<times> event list" where
  "poll py cfg w current_timestamp =
     (case get_api_answer py cfg w current_timestamp of
        Inl error \<Rightarrow> (Inl error, [])
      | Inr response \<Rightarrow>
     (case check_response response of
        Inl error \<Rightarrow> (Inl error, [])
      | Inr homeworks \<Rightarrow>
     (case (if length homeworks > 0 then
              (case parse_status py (homeworks ! 0) of
                 Inl error \<Rightarrow> (Inl error, [])
               | Inr text \<Rightarrow> send_message cfg w text)
            else (Inr (), [])) of
        (Inl error, evs) \<Rightarrow> (Inl error, evs)
      | (Inr _, evs) \<Rightarrow>
     (case get response ''current_date'' of
        Inl error \<Rightarrow> (Inl error, evs)
      | Inr response_date \<Rightarrow>
          if isinstance_int response_date then (Inr response_date, evs)
          else (Inr current_timestamp, evs)))))"

text \<open>
  The two variables of the loop, and how a cycle or the whole program ends: the loop
  goes on with a state, an exception leaves \<open>main\<close>, or \<open>main\<close> returns.
\<close>

record state =
  current_timestamp :: json
  error_cache :: string

datatype outcome = Running state | Raised exn | Returned

text \<open>
  One pass of the \<open>while\<close> loop: the \<open>try\<close> block, the two handlers and the
  \<open>finally\<close> clause. An exception raised inside the second handler leaves the loop
  after the \<open>finally\<close> clause has slept.
\<close>

definition cycle ::
  "python \<Rightarrow> config \<Rightarrow> world \<Rightarrow> state \<Rightarrow> outcome \<times> event list" where
  "cycle py cfg w s =
     (case poll py cfg w (current_timestamp s) of
        (Inr response_date, evs) \<Rightarrow>
          (Running (s\<lparr>current_timestamp := response_date\<rparr>), evs @ [Sleep RETRY_TIME])
      | (Inl error, evs) \<Rightarrow>
          if cls error = BotError \<or> cls error = DateError then
            (Running s, evs @ [Log ERROR (exc_str py error)] @ [Sleep RETRY_TIME])
          else
            (let message = txt_failure @ exc_str py error in
             if error_cache s \<noteq> message then
               (case send_message cfg w message of
                  (Inl error2, evs2) \<Rightarrow>
                    (Raised error2, evs @ [Log ERROR message] @ evs2 @ [Sleep RETRY_TIME])
                | (Inr _, evs2) \<Rightarrow>
                    (Running (s\<lparr>error_cache := message\<rparr>),
                     evs @ [Log ERROR message] @ evs2 @ [Sleep RETRY_TIME]))
             else (Running s, evs @ [Log ERROR message] @ [Sleep RETRY_TIME])))"

text \<open>
  The \<open>while True\<close> loop over the worlds of the successive cycles: the list is the
  part of the endless run that is looked at.
\<close>

fun loop ::
  "python \<Rightarrow> config \<Rightarrow> world list \<Rightarrow> state \<Rightarrow> outcome \<times> event list" where
  "loop py cfg [] s = (Running s, [])"
| "loop py cfg (w # ws) s =
     (case cycle py cfg w s of
        (Running s', evs) \<Rightarrow> (case loop py cfg ws s' of (r, evs') \<Rightarrow> (r, evs @ evs'))
      | (r, evs) \<Rightarrow> (r, evs))"

text \<open>
  \<open>main\<close>, given what \<open>telegram.Bot(token=...)\<close> does (\<open>None\<close>: the client is
  built), the value of \<open>int(time.time())\<close> and the worlds of the cycles.
\<close>

definition main ::
  "python \<Rightarrow> config \<Rightarrow> (string option \<Rightarrow> exn option) \<Rightarrow> int \<Rightarrow> world list \<Rightarrow>
     outcome \<times> event list" where
  "main py cfg telegram_Bot time_time worlds =
     (case check_tokens cfg of
        (True, evs) \<Rightarrow>
          (case telegram_Bot (TELEGRAM_TOKEN cfg) of
             Some error \<Rightarrow> (Raised error, evs)
           | None \<Rightarrow>
               (let s = \<lparr>current_timestamp = JInt time_time, error_cache = []\<rparr> in
                case loop py cfg worlds s of (r, evs') \<Rightarrow> (r, evs @ evs')))
      | (False, evs) \<Rightarrow> (Returned, evs @ [Log CRITICAL txt_interrupted]))"

section \<open>Notions used by the properties\<close>

text \<open>The calls of the Telegram client among the events, and those with a given text.\<close>

fun is_send :: "event \<Rightarrow> bool" where
  "is_send (BotSend chat text) = True"
| "is_send e = False"

fun sends_text :: "string \<Rightarrow> event \<Rightarrow> bool" where
  "sends_text m (BotSend chat text) = (text = m)"
| "sends_text m e = False"

definition count_sends :: "string \<Rightarrow> event list \<Rightarrow> nat" where
  "count_sends m evs = length (filter (sends_text m) evs)"

text \<open>
  The \<open>try\<close> block raises an exception that reaches the second handler (neither
  \<open>BotError\<close> nor \<open>DateError\<close>), and the failure message built from it is \<open>m\<close>.
\<close>

definition raises_generic ::
  "python \<Rightarrow> config \<Rightarrow> world \<Rightarrow> json \<Rightarrow> string \<Rightarrow> bool" where
  "raises_generic py cfg w ts m =
     (case poll py cfg w ts of
        (Inl error, evs) \<Rightarrow>
          cls error \<noteq> BotError \<and> cls error \<noteq> DateError \<and>
          txt_failure @ exc_str py error = m
      | (Inr x, evs) \<Rightarrow> False)"

text \<open>Objects that can be keys of a dict: a list or a dict cannot be hashed.\<close>

fun hashable :: "json \<Rightarrow> bool" where
  "hashable (JList xs) = False"
| "hashable (JDict kvs) = False"
| "hashable x = True"

subsection \<open>Example runs\<close>

text \<open>
  An interpreter for the examples: it quotes a text without escaping anything, as
  \<open>repr()\<close> does for a text of letters and digits. No example prints the \<open>repr\<close>
  of a string, so the examples run the same under every interpreter.
\<close>

definition example_python :: python where
  "example_python = \<lparr>repr_str = quoted\<rparr>"

definition example_config :: config where
  "example_config =
     \<lparr>PRACTICUM_TOKEN = Some ''practicum'', TELEGRAM_TOKEN = Some ''telegram'',
      TELEGRAM_CHAT_ID = Some ''42''\<rparr>"

definition start :: state where
  "start = \<lparr>current_timestamp = JInt 5, error_cache = []\<rparr>"

definition delivers :: "string option \<Rightarrow> string \<Rightarrow> exn option" where
  "delivers chat text = None"

definition answers :: "int \<Rightarrow> json \<Rightarrow>
    string \<Rightarrow> (string \<times> string) list \<Rightarrow> (string \<times> json) list \<Rightarrow> exn + response" where
  "answers code body url headers params = Inr \<lparr>status_code = code, json = Inr body\<rparr>"

definition reviewing_body :: json where
  "reviewing_body =
     JDict [(''homeworks'',
             JList [JDict [(''homework_name'', JStr ''hw1''), (''status'', JStr ''reviewing'')],
                    JInt 0]),
            (''current_date'', JInt 7)]"

definition world_503 :: world where
  "world_503 = \<lparr>requests_get = answers 503 JNull, bot_send_message = delivers\<rparr>"

definition world_quiet :: world where
  "world_quiet =
     \<lparr>requests_get = answers 200 (JDict [(''homeworks'', JList []), (''current_date'', JInt 7)]),
      bot_send_message = delivers\<rparr>"

definition world_no_date :: world where
  "world_no_date =
     \<lparr>requests_get = answers 200 (JDict [(''homeworks'', JList [])]),
      bot_send_message = delivers\<rparr>"

definition world_reviewing :: world where
  "world_reviewing = \<lparr>requests_get = answers 200 reviewing_body, bot_send_message = delivers\<rparr>"

definition world_undelivered :: world where
  "world_undelivered =
     \<lparr>requests_get = answers 200 reviewing_body,
      bot_send_message = (\<lambda>chat text. Some (Exn TelegramError ''Timed out'' None))\<rparr>"

definition world_broken_client :: world where
  "world_broken_client =
     \<lparr>requests_get = answers 200 reviewing_body,
      bot_send_message = (\<lambda>chat text. Some (Exn (OtherError ''RuntimeError'') ''boom'' None))\<rparr>"

definition world_offline :: world where
  "world_offline =
     \<lparr>requests_get = (\<lambda>url headers params. Inl (Exn RequestException ''timed out'' None)),
      bot_send_message = delivers\<rparr>"

definition failure_503 :: string where
  "failure_503 =
     txt_failure @ txt_endpoint_status @ ENDPOINT @ txt_not_200 @ txt_status @ ''503''"

definition failure_offline :: string where
  "failure_offline = txt_failure @ txt_no_access @ ENDPOINT @ '' '' @ txt_error @ ''timed out''"

definition reviewing_text :: string where
  "reviewing_text = txt_status_changed @ ''hw1'' @ [CHR 0x22] @ ''. '' @ verdict_reviewing"


section \<open>Properties\<close>

subsection \<open>Auxiliary facts\<close>

text \<open>The lengths of the texts, in bytes of their UTF-8 encoding.\<close>

lemma text_lengths:
  "length verdict_approved = 88
   \<and> length verdict_reviewing = 65
   \<and> length verdict_rejected = 81
   \<and> length txt_send_error = 57
   \<and> length txt_message = 20
   \<and> length txt_sent = 22
   \<and> length txt_no_access = 58
   \<and> length txt_error = 14
   \<and> length txt_endpoint_status = 32
   \<and> length txt_not_200 = 24
   \<and> length txt_status = 13
   \<and> length txt_response_type = 59
   \<and> length txt_data_type = 21
   \<and> length txt_no_current_date = 67
   \<and> length txt_no_homeworks = 64
   \<and> length txt_homeworks_type = 70
   \<and> length txt_no_homework_name = 45
   \<and> length txt_unexpected_status = 65
   \<and> length txt_status_changed = 63
   \<and> length txt_missing_env = 63
   \<and> length txt_failure = 45
   \<and> length txt_interrupted = 47"
  by (simp add:
      verdict_approved_def verdict_reviewing_def verdict_rejected_def txt_send_error_def
      txt_message_def txt_sent_def txt_no_access_def txt_error_def
      txt_endpoint_status_def txt_not_200_def txt_status_def txt_response_type_def
      txt_data_type_def txt_no_current_date_def txt_no_homeworks_def
      txt_homeworks_type_def txt_no_homework_name_def txt_unexpected_status_def
      txt_status_changed_def txt_missing_env_def txt_failure_def txt_interrupted_def)





lemma cycle_poll_logged:
  "poll py cfg w (current_timestamp s) = (Inl error, evs) \<Longrightarrow>
   cls error = BotError \<or> cls error = DateError \<Longrightarrow>
     cycle py cfg w s = (Running s, evs @ [Log ERROR (exc_str py error), Sleep RETRY_TIME])"
  by (simp add: cycle_def)




lemma parse_status_text:
  "parse_status py homework = Inr text \<Longrightarrow> \<exists>rest. text = txt_status_changed @ rest"
  by (auto simp add: parse_status_def split: sum.splits if_splits)

lemma status_text_not_failure: "txt_status_changed @ x \<noteq> txt_failure @ y"
  by (simp add: txt_status_changed_def txt_failure_def)

lemma count_sends_append [simp]:
  "count_sends m (xs @ ys) = count_sends m xs + count_sends m ys"
  by (simp add: count_sends_def)

lemma count_sends_simps [simp]:
  "count_sends m [] = 0"
  "count_sends m (BotSend chat text # evs) = (if text = m then 1 else 0) + count_sends m evs"
  "count_sends m (Log l x # evs) = count_sends m evs"
  "count_sends m (Sleep n # evs) = count_sends m evs"
  by (simp_all add: count_sends_def)

lemma count_sends_send_message:
  "count_sends m (snd (send_message cfg w message)) = (if message = m then 1 else 0)"
  by (simp add: send_message_def split: option.splits)

lemma poll_sends_no_failure:
  assumes "poll py cfg w ts = (r, evs)"
  shows "count_sends (txt_failure @ y) evs = 0"
proof (cases "get_api_answer py cfg w ts")
  case (Inl error)
  with assms show ?thesis by (simp add: poll_def)
next
  case (Inr response)
  show ?thesis
  proof (cases "check_response response")
    case (Inl error)
    with assms Inr show ?thesis by (simp add: poll_def)
  next
    case hs: (Inr homeworks)
    show ?thesis
    proof (cases homeworks)
      case Nil
      with assms Inr hs show ?thesis
        by (auto simp add: poll_def split: sum.splits if_splits)
    next
      case (Cons homework others)
      show ?thesis
      proof (cases "parse_status py homework")
        case (Inl error)
        with assms Inr hs Cons show ?thesis by (simp add: poll_def)
      next
        case sentence: (Inr sentence)
        then obtain rest where rest: "sentence = txt_status_changed @ rest"
          using parse_status_text by blast
        have "count_sends (txt_failure @ y) (snd (send_message cfg w sentence)) = 0"
          using status_text_not_failure [of rest y]
          by (simp add: count_sends_send_message rest)
        with assms Inr hs Cons sentence show ?thesis
          by (auto simp add: poll_def split: sum.splits prod.splits if_splits)
      qed
    qed
  qed
qed

lemma cycle_generic_count:
  assumes "raises_generic py cfg w (current_timestamp s) m"
  shows "count_sends m (snd (cycle py cfg w s)) = (if error_cache s = m then 0 else 1)"
    and "fst (cycle py cfg w s) = Running s' \<Longrightarrow>
           error_cache s' = m \<and> current_timestamp s' = current_timestamp s"
    and "fst (cycle py cfg w s) \<noteq> Returned"
proof -
  from assms obtain error evs where
    p: "poll py cfg w (current_timestamp s) = (Inl error, evs)" and
    g: "cls error \<noteq> BotError" "cls error \<noteq> DateError" and
    m: "txt_failure @ exc_str py error = m"
    by (auto simp add: raises_generic_def split: sum.splits prod.splits)
  have z: "count_sends m evs = 0"
    using poll_sends_no_failure [OF p, of "exc_str py error"] m by simp
  obtain r evs2 where sm: "send_message cfg w m = (r, evs2)"
    by (cases "send_message cfg w m")
  have c2: "count_sends m evs2 = 1"
    using count_sends_send_message [of m cfg w m] sm by simp
  have cyc: "cycle py cfg w s =
      (if error_cache s = m then (Running s, evs @ [Log ERROR m, Sleep RETRY_TIME])
       else ((case r of Inl error2 \<Rightarrow> Raised error2
                      | Inr u \<Rightarrow> Running (s\<lparr>error_cache := m\<rparr>)),
             evs @ [Log ERROR m] @ evs2 @ [Sleep RETRY_TIME]))"
    using p g m sm by (simp add: cycle_def Let_def split: sum.splits)
  show "count_sends m (snd (cycle py cfg w s)) = (if error_cache s = m then 0 else 1)"
    using z c2 by (simp add: cyc)
  show "error_cache s' = m \<and> current_timestamp s' = current_timestamp s"
    if "fst (cycle py cfg w s) = Running s'"
    using that by (cases r) (auto simp add: cyc split: if_splits)
  show "fst (cycle py cfg w s) \<noteq> Returned"
    by (cases r) (simp_all add: cyc)
qed

lemma loop_generic_quiet:
  "\<forall>w\<in>set ws. raises_generic py cfg w (current_timestamp s) m \<Longrightarrow> error_cache s = m \<Longrightarrow>
     count_sends m (snd (loop py cfg ws s)) = 0"
proof (induction ws arbitrary: s)
  case Nil
  then show ?case by simp
next
  case (Cons w ws)
  then have rg: "raises_generic py cfg w (current_timestamp s) m" by simp
  obtain r evs where c: "cycle py cfg w s = (r, evs)" by (cases "cycle py cfg w s")
  have cnt: "count_sends m evs = 0"
    using cycle_generic_count(1) [OF rg] c Cons.prems(2) by simp
  show ?case
  proof (cases r)
    case (Running s')
    then have s': "error_cache s' = m" "current_timestamp s' = current_timestamp s"
      using cycle_generic_count(2) [OF rg, of s'] c by simp_all
    obtain r2 evs2 where l: "loop py cfg ws s' = (r2, evs2)" by (cases "loop py cfg ws s'")
    have "count_sends m (snd (loop py cfg ws s')) = 0"
      using Cons.IH [of s'] Cons.prems(1) s' by simp
    with c Running cnt l show ?thesis by simp
  next
    case (Raised e)
    with c cnt show ?thesis by simp
  next
    case Returned
    with c cnt show ?thesis by simp
  qed
qed

lemma loop_generic_once:
  assumes "\<forall>w\<in>set (w0 # ws). raises_generic py cfg w (current_timestamp s) m"
  shows "count_sends m (snd (loop py cfg (w0 # ws) s)) = (if error_cache s = m then 0 else 1)"
proof (cases "error_cache s = m")
  case True
  with assms show ?thesis using loop_generic_quiet [of "w0 # ws" py cfg s m] by simp
next
  case False
  from assms have rg: "raises_generic py cfg w0 (current_timestamp s) m" by simp
  obtain r evs where c: "cycle py cfg w0 s = (r, evs)" by (cases "cycle py cfg w0 s")
  have cnt: "count_sends m evs = 1"
    using cycle_generic_count(1) [OF rg] c False by simp
  show ?thesis
  proof (cases r)
    case (Running s')
    then have s': "error_cache s' = m" "current_timestamp s' = current_timestamp s"
      using cycle_generic_count(2) [OF rg, of s'] c by simp_all
    obtain r2 evs2 where l: "loop py cfg ws s' = (r2, evs2)" by (cases "loop py cfg ws s'")
    have "count_sends m (snd (loop py cfg ws s')) = 0"
      using loop_generic_quiet [of ws py cfg s' m] assms s' by simp
    with c Running cnt l False show ?thesis by simp
  next
    case (Raised e)
    with c cnt False show ?thesis by simp
  next
    case Returned
    with c cnt False show ?thesis by simp
  qed
qed

lemma str_int_503: "str_int 503 = ''503''"
  by (simp add: str_int_def digit_def)

lemma loop_generic_state:
  "\<forall>w\<in>set ws. raises_generic py cfg w (current_timestamp s) m \<Longrightarrow>
   fst (loop py cfg ws s) = Running s1 \<Longrightarrow>
     current_timestamp s1 = current_timestamp s \<and> (ws \<noteq> [] \<longrightarrow> error_cache s1 = m)"
proof (induction ws arbitrary: s)
  case Nil
  then show ?case by simp
next
  case (Cons w ws)
  then have rg: "raises_generic py cfg w (current_timestamp s) m" by simp
  obtain r evs where c: "cycle py cfg w s = (r, evs)" by (cases "cycle py cfg w s")
  show ?case
  proof (cases r)
    case (Running s')
    then have s': "error_cache s' = m" "current_timestamp s' = current_timestamp s"
      using cycle_generic_count(2) [OF rg, of s'] c by simp_all
    obtain r2 evs2 where l: "loop py cfg ws s' = (r2, evs2)" by (cases "loop py cfg ws s'")
    with Cons.prems(2) c Running have r2: "fst (loop py cfg ws s') = Running s1" by simp
    have "current_timestamp s1 = current_timestamp s' \<and> (ws \<noteq> [] \<longrightarrow> error_cache s1 = m)"
      using Cons.IH [of s'] Cons.prems(1) s' r2 by simp
    moreover have "ws = [] \<Longrightarrow> s1 = s'" using r2 by simp
    ultimately show ?thesis using s' by auto
  next
    case (Raised e)
    with c Cons.prems(2) show ?thesis by simp
  next
    case Returned
    with c Cons.prems(2) show ?thesis by simp
  qed
qed

lemmas example_defs =
  example_config_def start_def delivers_def answers_def reviewing_body_def
  world_503_def world_quiet_def world_no_date_def world_reviewing_def world_undelivered_def
  world_broken_client_def world_offline_def


lemma catalog_keys:
  "has_key HOMEWORK_STATUSES status \<longleftrightarrow> status \<in> {''approved'', ''reviewing'', ''rejected''}"
  by (auto simp add: HOMEWORK_STATUSES_def has_key_def)


lemma check_response_reviewing:
  "check_response reviewing_body =
     Inr [JDict [(''homework_name'', JStr ''hw1''), (''status'', JStr ''reviewing'')], JInt 0]"
  by (simp add: check_response_def reviewing_body_def has_key_def dict_get_def)

lemma get_api_answer_503:
  "get_api_answer py example_config world_503 ts =
     Inl (Exn ConnectionError
            (txt_endpoint_status @ ENDPOINT @ txt_not_200 @ txt_status @ ''503'') None)"
  by (simp add: get_api_answer_def world_503_def answers_def str_int_503)

lemma poll_no_date:
  "poll py example_config world_no_date ts = (Inl (Exn DateError txt_no_current_date None), [])"
  by (simp add: poll_def get_api_answer_def world_no_date_def answers_def check_response_def
      has_key_def)

lemma parse_status_reviewing:
  "parse_status py (JDict [(''homework_name'', JStr ''hw1''), (''status'', JStr ''reviewing'')]) =
     Inr reviewing_text"
  by (simp add: parse_status_def dict_get_def has_key_def HOMEWORK_STATUSES_def
      reviewing_text_def)

lemma poll_undelivered:
  "poll py example_config world_undelivered ts =
     (Inl (Exn BotError (txt_send_error @ reviewing_text @ '']'')
             (Some (Exn TelegramError ''Timed out'' None))),
      [BotSend (Some ''42'') reviewing_text])"
proof -
  have g: "get_api_answer py example_config world_undelivered ts = Inr reviewing_body"
    by (simp add: get_api_answer_def world_undelivered_def answers_def)
  have s: "send_message example_config world_undelivered reviewing_text =
     (Inl (Exn BotError (txt_send_error @ reviewing_text @ '']'')
             (Some (Exn TelegramError ''Timed out'' None))),
      [BotSend (Some ''42'') reviewing_text])"
    by (simp add: send_message_def world_undelivered_def example_config_def)
  show ?thesis
    using check_response_reviewing parse_status_reviewing
    by (simp add: poll_def g s)
qed

lemma check_tokens_present:
  "\<not> falsy (PRACTICUM_TOKEN cfg) \<Longrightarrow> \<not> falsy (TELEGRAM_TOKEN cfg) \<Longrightarrow>
   \<not> falsy (TELEGRAM_CHAT_ID cfg) \<Longrightarrow> check_tokens cfg = (True, [])"
  by (simp add: check_tokens_def)

lemma check_tokens_missing:
  "falsy (PRACTICUM_TOKEN cfg) \<or> falsy (TELEGRAM_TOKEN cfg) \<or> falsy (TELEGRAM_CHAT_ID cfg) \<Longrightarrow>
     \<exists>key. check_tokens cfg = (False, [Log CRITICAL (txt_missing_env @ key)])"
  by (auto simp add: check_tokens_def)

lemma cycle_quiet:
  "cycle py example_config world_quiet s = (Running (s\<lparr>current_timestamp := JInt 7\<rparr>), [Sleep RETRY_TIME])"
  by (simp add: cycle_def poll_def get_api_answer_def world_quiet_def answers_def
      check_response_def has_key_def dict_get_def)

lemma txt_failure_nonempty: "txt_failure @ x \<noteq> []"
  by (simp add: txt_failure_def)

lemma poll_503:
  "poll py example_config world_503 ts =
     (Inl (Exn ConnectionError
             (txt_endpoint_status @ ENDPOINT @ txt_not_200 @ txt_status @ ''503'') None), [])"
  by (simp add: poll_def get_api_answer_503)

lemma poll_offline:
  "poll py example_config world_offline ts =
     (Inl (Exn ConnectionError
             (txt_no_access @ ENDPOINT @ '' '' @ txt_error @ ''timed out'')
             (Some (Exn RequestException ''timed out'' None))), [])"
  by (simp add: poll_def get_api_answer_def world_offline_def exc_str_def)

lemma raises_generic_503: "raises_generic py example_config world_503 ts failure_503"
  by (simp add: raises_generic_def poll_503 exc_str_def failure_503_def)

lemma raises_generic_offline: "raises_generic py example_config world_offline ts failure_offline"
  by (simp add: raises_generic_def poll_offline exc_str_def failure_offline_def)

lemma send_message_delivered:
  "bot_send_message w = delivers \<Longrightarrow>
     send_message example_config w message =
       (Inr (), [BotSend (Some ''42'') message, Log INFO (txt_message @ message @ txt_sent)])"
  by (simp add: send_message_def delivers_def example_config_def)

lemma cycle_503_new:
  "cycle py example_config world_503 s =
       (Running (s\<lparr>error_cache := failure_503\<rparr>),
        [Log ERROR failure_503, BotSend (Some ''42'') failure_503,
         Log INFO (txt_message @ failure_503 @ txt_sent), Sleep RETRY_TIME])"
  if "error_cache s \<noteq> failure_503"
proof -
  have "bot_send_message world_503 = delivers" by (simp add: world_503_def)
  from send_message_delivered [OF this, of failure_503] that show ?thesis
    by (simp add: cycle_def poll_503 exc_str_def failure_503_def Let_def)
qed

lemma cycle_503_same:
  "error_cache s = failure_503 \<Longrightarrow>
     cycle py example_config world_503 s = (Running s, [Log ERROR failure_503, Sleep RETRY_TIME])"
  by (simp add: cycle_def poll_503 exc_str_def failure_503_def)

lemma failure_offline_not_503: "failure_offline \<noteq> failure_503"
  by (simp add: failure_offline_def failure_503_def txt_no_access_def txt_endpoint_status_def)

lemma start_cache: "error_cache start \<noteq> failure_503"
  using txt_failure_nonempty [of "txt_endpoint_status @ ENDPOINT @ txt_not_200 @ txt_status @ ''503''"]
  by (simp add: start_def failure_503_def)

text \<open>
  Where \<open>parse_status\<close> raises \<open>KeyError\<close>: for an absent or empty name, and, the
  name being non-empty, for a status that can be hashed and is none of the three keys.
\<close>

lemma parse_status_key_errors:
  "(\<not> truthy (dict_get hw ''homework_name'') \<longrightarrow>
      parse_status py (JDict hw) = Inl (Exn KeyError txt_no_homework_name None))
   \<and> (truthy (dict_get hw ''homework_name'') \<and> hashable (dict_get hw ''status'') \<and>
      dict_get hw ''status'' \<notin> {JStr ''approved'', JStr ''reviewing'', JStr ''rejected''} \<longrightarrow>
        parse_status py (JDict hw) =
          Inl (Exn KeyError (txt_unexpected_status @ str py (dict_get hw ''status'')) None)
        \<and> sublist (str py (dict_get hw ''status''))
                   (txt_unexpected_status @ str py (dict_get hw ''status'')))
   \<and> (truthy (dict_get hw ''homework_name'') \<and> \<not> hashable (dict_get hw ''status'') \<longrightarrow>
        parse_status py (JDict hw) =
          Inl (Exn TypeError
                 (''unhashable type: '' @ quoted (type_name (dict_get hw ''status''))) None))"
proof -
  have a: "parse_status py (JDict hw) = Inl (Exn KeyError txt_no_homework_name None)"
    if "\<not> truthy (dict_get hw ''homework_name'')"
    using that by (simp add: parse_status_def)
  have b: "parse_status py (JDict hw) =
             Inl (Exn KeyError (txt_unexpected_status @ str py (dict_get hw ''status'')) None)"
    if "truthy (dict_get hw ''homework_name'')" and "hashable (dict_get hw ''status'')"
      and "dict_get hw ''status'' \<notin> {JStr ''approved'', JStr ''reviewing'', JStr ''rejected''}"
    using that
    by (cases "dict_get hw ''status''") (simp_all add: parse_status_def catalog_keys)
  have c: "parse_status py (JDict hw) =
             Inl (Exn TypeError
                    (''unhashable type: '' @ quoted (type_name (dict_get hw ''status''))) None)"
    if "truthy (dict_get hw ''homework_name'')" and "\<not> hashable (dict_get hw ''status'')"
    using that
    by (cases "dict_get hw ''status''") (simp_all add: parse_status_def)
  from a b c show ?thesis by simp
qed

subsection \<open>The claims\<close>

text \<open>
  Claim C1, as amended. When the \<open>try\<close> block raises an exception that is neither a
  \<open>BotError\<close> nor a \<open>DateError\<close>, the failure message \<open>m\<close> built from it is
  sent to the Telegram client if and only if it differs from \<open>error_cache\<close>, and a
  cycle after which the loop goes on leaves \<open>error_cache = m\<close>. Hence a run of
  consecutive cycles that all raise the message \<open>m\<close> sends \<open>m\<close> exactly once, in its
  first cycle, when \<open>error_cache\<close> differs from \<open>m\<close> at the start of the run, and
  never when \<open>error_cache\<close> already holds \<open>m\<close>; a cycle after the run that raises a
  different message sends that message.
\<close>

theorem generic_failure_reported_once:
  assumes "\<forall>w\<in>set (w0 # ws). raises_generic py cfg w (current_timestamp s) m"
  shows "count_sends m (snd (cycle py cfg w0 s)) = (if error_cache s = m then 0 else 1)
       \<and> (\<forall>s'. fst (cycle py cfg w0 s) = Running s' \<longrightarrow> error_cache s' = m)
       \<and> count_sends m (snd (loop py cfg (w0 # ws) s)) = (if error_cache s = m then 0 else 1)
       \<and> (\<forall>s1 w' m'. fst (loop py cfg (w0 # ws) s) = Running s1 \<and> m' \<noteq> m \<and>
             raises_generic py cfg w' (current_timestamp s1) m' \<longrightarrow>
               count_sends m' (snd (cycle py cfg w' s1)) = 1)"
proof -
  from assms have rg: "raises_generic py cfg w0 (current_timestamp s) m" by simp
  have a: "count_sends m (snd (cycle py cfg w0 s)) = (if error_cache s = m then 0 else 1)"
    by (rule cycle_generic_count(1) [OF rg])
  have b: "\<forall>s'. fst (cycle py cfg w0 s) = Running s' \<longrightarrow> error_cache s' = m"
    using cycle_generic_count(2) [OF rg] by blast
  have c: "count_sends m (snd (loop py cfg (w0 # ws) s)) = (if error_cache s = m then 0 else 1)"
    by (rule loop_generic_once [OF assms])
  have d: "count_sends m' (snd (cycle py cfg w' s1)) = 1"
    if "fst (loop py cfg (w0 # ws) s) = Running s1" and "m' \<noteq> m"
      and "raises_generic py cfg w' (current_timestamp s1) m'" for s1 w' m'
  proof -
    have "error_cache s1 = m"
      using loop_generic_state [OF assms that(1)] by simp
    with that(2) show ?thesis
      using cycle_generic_count(1) [OF that(3)] by simp
  qed
  from a b c d show ?thesis by blast
qed

text \<open>
  Two cycles answered with status 503 after startup send the failure message once; a
  third cycle that fails with another message sends that one.
\<close>

theorem generic_failure_reported_once_witness:
  "raises_generic example_python example_config world_503 (current_timestamp start) failure_503
   \<and> error_cache start \<noteq> failure_503
   \<and> count_sends failure_503 (snd (cycle example_python example_config world_503 start)) = 1
   \<and> count_sends failure_503 (snd (loop example_python example_config [world_503, world_503] start)) = 1
   \<and> count_sends failure_offline
        (snd (cycle example_python example_config world_offline (start\<lparr>error_cache := failure_503\<rparr>))) = 1"
proof -
  have h: "\<forall>w\<in>set (world_503 # [world_503]).
             raises_generic example_python example_config w (current_timestamp start) failure_503"
    by (simp add: raises_generic_503)
  have l: "fst (loop example_python example_config (world_503 # [world_503]) start) =
             Running (start\<lparr>error_cache := failure_503\<rparr>)"
    using start_cache by (simp add: cycle_503_new cycle_503_same)
  have o: "raises_generic example_python example_config world_offline
             (current_timestamp (start\<lparr>error_cache := failure_503\<rparr>)) failure_offline"
    by (rule raises_generic_offline)
  from generic_failure_reported_once [OF h] l o failure_offline_not_503 start_cache
    raises_generic_503 [of example_python "current_timestamp start"]
  show ?thesis by simp
qed

text \<open>
  The claim as stated fails: \<open>error_cache\<close> is reset by no successful cycle. A failure,
  a successful cycle and the same failure again are two separate runs of the failure, and
  the second run sends nothing.
\<close>

theorem recurring_failure_counterexample:
  "loop example_python example_config [world_503, world_quiet, world_503] start =
     (Running \<lparr>current_timestamp = JInt 7, error_cache = failure_503\<rparr>,
      [Log ERROR failure_503, BotSend (Some ''42'') failure_503,
       Log INFO (txt_message @ failure_503 @ txt_sent), Sleep RETRY_TIME,
       Sleep RETRY_TIME,
       Log ERROR failure_503, Sleep RETRY_TIME])
   \<and> raises_generic example_python example_config world_503 (JInt 7) failure_503
   \<and> count_sends failure_503
        (snd (cycle example_python example_config world_503
                \<lparr>current_timestamp = JInt 7, error_cache = failure_503\<rparr>)) = 0"
  using start_cache
  by (simp add: cycle_503_new cycle_503_same cycle_quiet raises_generic_503 start_def)

text \<open>
  Claim C2. A decoded response that is a dict without the key \<open>current_date\<close> makes
  \<open>check_response\<close> raise \<open>DateError\<close>, whatever else the dict holds; a cycle that
  fetches such a response only logs the error and sleeps: the loop goes on with the same
  state, so \<open>current_timestamp\<close> is unchanged for the next cycle.
\<close>

theorem missing_current_date:
  assumes "\<not> has_key d ''current_date''"
  shows "check_response (JDict d) = Inl (Exn DateError txt_no_current_date None)
       \<and> (get_api_answer py cfg w (current_timestamp s) = Inr (JDict d) \<longrightarrow>
            cycle py cfg w s = (Running s, [Log ERROR txt_no_current_date, Sleep RETRY_TIME]))"
  using assms
  by (simp add: check_response_def poll_def cycle_def exc_str_def)

theorem missing_current_date_witness:
  "check_response (JDict [(''homeworks'', JList [])]) =
     Inl (Exn DateError txt_no_current_date None)
   \<and> cycle example_python example_config world_no_date start =
       (Running start, [Log ERROR txt_no_current_date, Sleep RETRY_TIME])"
proof -
  have h: "\<not> has_key [(''homeworks'', JList [])] ''current_date''"
    by (simp add: has_key_def)
  have g: "get_api_answer example_python example_config world_no_date (current_timestamp start) =
             Inr (JDict [(''homeworks'', JList [])])"
    by (simp add: get_api_answer_def example_defs)
  from missing_current_date [OF h, of example_python example_config world_no_date start] g
  show ?thesis by simp
qed



text \<open>
  Claim C4. \<open>parse_status\<close> is to raise \<open>KeyError\<close> for every record whose
  \<open>homework_name\<close> is absent or empty, and for every record whose status is absent or
  no key of \<open>HOMEWORK_STATUSES\<close>, then with the status in the message. It does so for
  an absent or empty name, for an absent status and for every status that can be hashed
  (lemma \<open>parse_status_key_errors\<close>). But the membership test
  \<open>homework_status not in HOMEWORK_STATUSES\<close> hashes the status first: for the record
  whose status is the empty JSON array the code raises \<open>TypeError\<close>, and the branch
  that raises \<open>KeyError\<close> is never reached.
\<close>

theorem parse_status_unhashable_status:
  "parse_status py (JDict [(''homework_name'', JStr ''hw1''), (''status'', JList [])]) =
     Inl (Exn TypeError (''unhashable type: '' @ quoted ''list'') None)
   \<and> cls (Exn TypeError (''unhashable type: '' @ quoted ''list'') None) \<noteq> KeyError"
  by (simp add: parse_status_def dict_get_def)



text \<open>
  Claim C6. In a dict with the key \<open>current_date\<close>, a value of \<open>homeworks\<close> that is
  a list is returned as it is (also when empty); any other value (a string, a dict, a
  number, \<open>None\<close>) makes \<open>check_response\<close> raise \<open>TypeError\<close>.
\<close>

theorem check_response_homeworks_type:
  assumes "has_key d ''current_date''" and "map_of d ''homeworks'' = Some v"
  shows "check_response (JDict d) =
           (case v of
              JList hs \<Rightarrow> Inr hs
            | _ \<Rightarrow> Inl (Exn TypeError (txt_homeworks_type @ txt_data_type @ type_str v) None))"
  using assms by (simp add: check_response_def dict_get_def has_key_def split: json.splits)

theorem check_response_homeworks_type_witness:
  "check_response (JDict [(''homeworks'', JStr ''done''), (''current_date'', JInt 1)]) =
     Inl (Exn TypeError (txt_homeworks_type @ txt_data_type @ type_str (JStr ''done'')) None)
   \<and> check_response (JDict [(''homeworks'', JDict []), (''current_date'', JInt 1)]) =
     Inl (Exn TypeError (txt_homeworks_type @ txt_data_type @ type_str (JDict [])) None)
   \<and> check_response (JDict [(''homeworks'', JList []), (''current_date'', JInt 1)]) = Inr []
   \<and> check_response (JDict [(''current_date'', JInt 1), (''homeworks'', JList [JInt 5, JNull])]) =
     Inr [JInt 5, JNull]"
  using check_response_homeworks_type
          [of "[(''homeworks'', JStr ''done''), (''current_date'', JInt 1)]" "JStr ''done''"]
        check_response_homeworks_type
          [of "[(''homeworks'', JDict []), (''current_date'', JInt 1)]" "JDict []"]
        check_response_homeworks_type
          [of "[(''homeworks'', JList []), (''current_date'', JInt 1)]" "JList []"]
        check_response_homeworks_type
          [of "[(''current_date'', JInt 1), (''homeworks'', JList [JInt 5, JNull])]"
              "JList [JInt 5, JNull]"]
  by (simp add: has_key_def)

text \<open>
  Claim C7, as amended. When the client's \<open>send_message\<close> raises a
  \<open>TelegramError\<close>, \<open>send_message\<close> raises a \<open>BotError\<close> whose message contains
  the text that was being sent and whose cause is the \<open>TelegramError\<close>; an exception
  of any other class is not caught and leaves \<open>send_message\<close> as it is.
\<close>

theorem send_message_wraps_telegram_error:
  assumes "bot_send_message w (TELEGRAM_CHAT_ID cfg) message = Some error"
  shows "(cls error = TelegramError \<longrightarrow>
            send_message cfg w message =
              (Inl (Exn BotError (txt_send_error @ message @ '']'') (Some error)),
               [BotSend (TELEGRAM_CHAT_ID cfg) message])
            \<and> sublist message (txt_send_error @ message @ '']''))
       \<and> (cls error \<noteq> TelegramError \<longrightarrow>
            send_message cfg w message = (Inl error, [BotSend (TELEGRAM_CHAT_ID cfg) message]))"
  using assms by (simp add: send_message_def)

theorem send_message_wraps_telegram_error_witness:
  "send_message example_config world_undelivered ''hello'' =
     (Inl (Exn BotError (txt_send_error @ ''hello'' @ '']'')
             (Some (Exn TelegramError ''Timed out'' None))),
      [BotSend (Some ''42'') ''hello''])"
proof -
  have a: "bot_send_message world_undelivered (TELEGRAM_CHAT_ID example_config) ''hello'' =
             Some (Exn TelegramError ''Timed out'' None)"
    by (simp add: world_undelivered_def)
  from send_message_wraps_telegram_error [OF a]
  show ?thesis by (simp add: example_config_def)
qed

text \<open>
  The claim as stated fails for an exception of the client that is no
  \<open>TelegramError\<close>: \<open>except TelegramError\<close> lets it pass.
\<close>

theorem other_exception_not_wrapped_counterexample:
  "send_message example_config world_broken_client ''hello'' =
     (Inl (Exn (OtherError ''RuntimeError'') ''boom'' None), [BotSend (Some ''42'') ''hello''])
   \<and> cls (Exn (OtherError ''RuntimeError'') ''boom'' None) \<noteq> BotError"
  by (simp add: send_message_def world_broken_client_def example_config_def)

text \<open>
  Claim C8. When the \<open>try\<close> block raises a \<open>BotError\<close> or a \<open>DateError\<close>, the
  cycle logs the error at severity \<open>ERROR\<close>, sleeps and goes on with the same state
  (\<open>error_cache\<close> and \<open>current_timestamp\<close> unchanged); the handler calls the
  Telegram client for nothing: the calls of the cycle are those of the \<open>try\<close> block.
\<close>

theorem bot_and_date_errors_only_logged:
  assumes "poll py cfg w (current_timestamp s) = (Inl error, evs)"
    and "cls error = BotError \<or> cls error = DateError"
  shows "cycle py cfg w s = (Running s, evs @ [Log ERROR (exc_str py error), Sleep RETRY_TIME])
       \<and> filter is_send (snd (cycle py cfg w s)) = filter is_send evs"
  using assms by (simp add: cycle_poll_logged)

theorem bot_and_date_errors_only_logged_witness:
  "cycle example_python example_config world_no_date start =
     (Running start, [Log ERROR txt_no_current_date, Sleep RETRY_TIME])
   \<and> cycle example_python example_config world_undelivered start =
     (Running start,
      [BotSend (Some ''42'') reviewing_text,
       Log ERROR (txt_send_error @ reviewing_text @ '']''),
       Sleep RETRY_TIME])"
  using bot_and_date_errors_only_logged
          [OF poll_no_date [of example_python "current_timestamp start"]]
        bot_and_date_errors_only_logged
          [OF poll_undelivered [of example_python "current_timestamp start"]]
  by (simp add: exc_str_def)

text \<open>
  Claim C9. When one of the three environment variables is unset or empty, \<open>main\<close>
  logs two lines at severity \<open>CRITICAL\<close> and returns, whatever the worlds of the
  cycles are: no cycle runs. When all three are set, \<open>main\<close> builds the client and
  runs the loop from the initial state. A cycle (each one ends with the sleep) has run
  only if all three variables were set.
\<close>

theorem main_requires_tokens:
  "(falsy (PRACTICUM_TOKEN cfg) \<or> falsy (TELEGRAM_TOKEN cfg) \<or> falsy (TELEGRAM_CHAT_ID cfg) \<longrightarrow>
      (\<exists>key. main py cfg telegram_Bot time_time worlds =
         (Returned, [Log CRITICAL (txt_missing_env @ key), Log CRITICAL txt_interrupted])))
   \<and> (\<not> falsy (PRACTICUM_TOKEN cfg) \<and> \<not> falsy (TELEGRAM_TOKEN cfg) \<and>
      \<not> falsy (TELEGRAM_CHAT_ID cfg) \<longrightarrow>
        main py cfg telegram_Bot time_time worlds =
          (case telegram_Bot (TELEGRAM_TOKEN cfg) of
             Some error \<Rightarrow> (Raised error, [])
           | None \<Rightarrow> loop py cfg worlds \<lparr>current_timestamp = JInt time_time, error_cache = []\<rparr>))
   \<and> (Sleep RETRY_TIME \<in> set (snd (main py cfg telegram_Bot time_time worlds)) \<longrightarrow>
        PRACTICUM_TOKEN cfg \<noteq> None \<and> TELEGRAM_TOKEN cfg \<noteq> None \<and>
        TELEGRAM_CHAT_ID cfg \<noteq> None)"
proof -
  have a: "\<exists>key. main py cfg telegram_Bot time_time worlds =
             (Returned, [Log CRITICAL (txt_missing_env @ key), Log CRITICAL txt_interrupted])"
    if "falsy (PRACTICUM_TOKEN cfg) \<or> falsy (TELEGRAM_TOKEN cfg) \<or> falsy (TELEGRAM_CHAT_ID cfg)"
  proof -
    from check_tokens_missing [OF that] obtain key where
      "check_tokens cfg = (False, [Log CRITICAL (txt_missing_env @ key)])" by blast
    then show ?thesis by (simp add: main_def)
  qed
  have b: "main py cfg telegram_Bot time_time worlds =
          (case telegram_Bot (TELEGRAM_TOKEN cfg) of
             Some error \<Rightarrow> (Raised error, [])
           | None \<Rightarrow> loop py cfg worlds \<lparr>current_timestamp = JInt time_time, error_cache = []\<rparr>)"
    if "\<not> falsy (PRACTICUM_TOKEN cfg)" "\<not> falsy (TELEGRAM_TOKEN cfg)"
       "\<not> falsy (TELEGRAM_CHAT_ID cfg)"
    using check_tokens_present [OF that]
    by (simp add: main_def split: option.splits prod.splits)
  have c: "PRACTICUM_TOKEN cfg \<noteq> None \<and> TELEGRAM_TOKEN cfg \<noteq> None \<and>
           TELEGRAM_CHAT_ID cfg \<noteq> None"
    if s: "Sleep RETRY_TIME \<in> set (snd (main py cfg telegram_Bot time_time worlds))"
  proof (rule ccontr)
    assume "\<not> ?thesis"
    then have "falsy (PRACTICUM_TOKEN cfg) \<or> falsy (TELEGRAM_TOKEN cfg) \<or>
               falsy (TELEGRAM_CHAT_ID cfg)"
      by (auto simp add: falsy_def)
    from a [OF this] s show False by auto
  qed
  from a b c show ?thesis by blast
qed

theorem main_requires_tokens_witness:
  "main example_python (example_config\<lparr>TELEGRAM_TOKEN := None\<rparr>) (\<lambda>token. None) 5 [world_quiet] =
     (Returned,
      [Log CRITICAL (txt_missing_env @ ''TELEGRAM_TOKEN''), Log CRITICAL txt_interrupted])
   \<and> main example_python example_config (\<lambda>token. None) 5 [world_quiet] =
     (Running \<lparr>current_timestamp = JInt 7, error_cache = []\<rparr>, [Sleep RETRY_TIME])"
proof -
  have a: "falsy (PRACTICUM_TOKEN (example_config\<lparr>TELEGRAM_TOKEN := None\<rparr>)) \<or>
           falsy (TELEGRAM_TOKEN (example_config\<lparr>TELEGRAM_TOKEN := None\<rparr>)) \<or>
           falsy (TELEGRAM_CHAT_ID (example_config\<lparr>TELEGRAM_TOKEN := None\<rparr>))"
    by (simp add: falsy_def)
  have k: "check_tokens (example_config\<lparr>TELEGRAM_TOKEN := None\<rparr>) =
             (False, [Log CRITICAL (txt_missing_env @ ''TELEGRAM_TOKEN'')])"
    by (simp add: check_tokens_def example_config_def falsy_def)
  have b: "\<not> falsy (PRACTICUM_TOKEN example_config) \<and> \<not> falsy (TELEGRAM_TOKEN example_config) \<and>
           \<not> falsy (TELEGRAM_CHAT_ID example_config)"
    by (simp add: falsy_def example_config_def)
  have l: "loop example_python example_config [world_quiet] \<lparr>current_timestamp = JInt 5, error_cache = []\<rparr> =
             (Running \<lparr>current_timestamp = JInt 7, error_cache = []\<rparr>, [Sleep RETRY_TIME])"
    by (simp add: cycle_quiet)
  from main_requires_tokens
         [of "example_config\<lparr>TELEGRAM_TOKEN := None\<rparr>" example_python "\<lambda>token. None" 5
             "[world_quiet]"] a
  have 1: "\<exists>key. main example_python (example_config\<lparr>TELEGRAM_TOKEN := None\<rparr>) (\<lambda>token. None) 5 [world_quiet] =
         (Returned, [Log CRITICAL (txt_missing_env @ key), Log CRITICAL txt_interrupted])"
    by blast
  have 2: "main example_python (example_config\<lparr>TELEGRAM_TOKEN := None\<rparr>) (\<lambda>token. None) 5 [world_quiet] =
     (Returned,
      [Log CRITICAL (txt_missing_env @ ''TELEGRAM_TOKEN''), Log CRITICAL txt_interrupted])"
    using 1 by (simp add: main_def k)
  from main_requires_tokens [of example_config example_python "\<lambda>token. None" 5 "[world_quiet]"]
    b l
  have 3: "main example_python example_config (\<lambda>token. None) 5 [world_quiet] =
     (Running \<lparr>current_timestamp = JInt 7, error_cache = []\<rparr>, [Sleep RETRY_TIME])"
    by simp
  from 2 3 show ?thesis by simp
qed



end
